theory Spec2Isabelle
  imports Main "HOL-Library.Multiset"
begin

section \<open>Data model of \<open>app.py\<close>\<close>

text \<open>
  The service receives dictionaries from the extraction library and reads them with
  \<open>d.get(k)\<close> and \<open>d.get(k, default)\<close>. A key of such a dictionary is in one of three
  states, and the source treats them differently: the key is absent (the default
  applies), the key is present with the value \<open>None\<close> (the default does not apply), or
  the key holds a value. Numbers are Python's unbounded integers; characters are code
  points below 256.
\<close>

datatype 'a field = Absent | Null | Val 'a

datatype json =
    JNull
  | JInt int
  | JStr string
  | JArr "json list"
  | JObj "(string \<times> json) list"

text \<open>\<open>d.get(k)\<close>, rendered for the JSON reply.\<close>

definition dict_get :: "('a \<Rightarrow> json) \<Rightarrow> 'a field \<Rightarrow> json" where
  "dict_get enc v = (case v of Absent \<Rightarrow> JNull | Null \<Rightarrow> JNull | Val x \<Rightarrow> enc x)"

text \<open>\<open>d.get(k, dflt)\<close>, rendered for the JSON reply: the default replaces an absent key only.\<close>

definition dict_get_default :: "('a \<Rightarrow> json) \<Rightarrow> 'a field \<Rightarrow> json \<Rightarrow> json" where
  "dict_get_default enc v dflt = (case v of Absent \<Rightarrow> dflt | Null \<Rightarrow> JNull | Val x \<Rightarrow> enc x)"

text \<open>\<open>d.get(k, dflt)\<close> as a Python value: \<open>None\<close> stands for Python's \<open>None\<close>.\<close>

definition get_or :: "'a field \<Rightarrow> 'a \<Rightarrow> 'a option" where
  "get_or v dflt = (case v of Absent \<Rightarrow> Some dflt | Null \<Rightarrow> None | Val x \<Rightarrow> Some x)"

text \<open>One entry of \<open>info['formats']\<close>, with the keys the service reads.\<close>

record fmt =
  f_format_id :: "string field"
  f_url :: "string field"
  f_ext :: "string field"
  f_format_note :: "string field"
  f_filesize :: "int field"
  f_width :: "int field"
  f_height :: "int field"
  f_fps :: "int field"
  f_vcodec :: "string field"
  f_acodec :: "string field"
  f_abr :: "int field"
  f_asr :: "int field"

text \<open>The metadata document returned by \<open>extract_info\<close>, with the keys the service reads.\<close>

record info =
  i_id :: "string field"
  i_title :: "string field"
  i_uploader :: "string field"
  i_duration :: "int field"
  i_view_count :: "int field"
  i_like_count :: "int field"
  i_description :: "string field"
  i_thumbnail :: "string field"
  i_upload_date :: "string field"
  i_categories :: "string list field"
  i_tags :: "string list field"
  i_webpage_url :: "string field"
  i_url :: "string field"
  i_formats :: "fmt list field"

text \<open>The options dictionary handed to \<open>yt_dlp.YoutubeDL\<close>; a key that a dictionary does
  not have is \<open>None\<close>.\<close>

record ydl_opts =
  opt_format :: string
  opt_extractaudio :: "bool option"
  opt_audioformat :: "string option"
  opt_quiet :: bool
  opt_no_warnings :: bool

text \<open>Exceptions: those the extraction library raises, carrying their text, and the two
  kinds the interpreter raises on a \<open>None\<close> value.\<close>

datatype exn = ExtractorError string | TypeError string | AttributeError string

fun str_exn :: "exn \<Rightarrow> string" where
  "str_exn (ExtractorError m) = m"
| "str_exn (TypeError m) = m"
| "str_exn (AttributeError m) = m"

text \<open>The text of the \<open>TypeError\<close> of a comparison between operands of the named types.\<close>

definition quoted :: "string \<Rightarrow> string" where
  "quoted s = CHR 0x27 # s @ [CHR 0x27]"

definition not_supported :: "string \<Rightarrow> string \<Rightarrow> string \<Rightarrow> exn" where
  "not_supported opr a b =
     TypeError (quoted opr @ '' not supported between instances of '' @ quoted a @ '' and '' @ quoted b)"

text \<open>
  The external collaborators: \<open>extract_info opts url\<close> stands for
  \<open>with yt_dlp.YoutubeDL(opts) as ydl: ydl.extract_info(url, download=False)\<close>, and
  \<open>unquote\<close> for \<open>urllib.parse.unquote\<close>.
\<close>

record env =
  extract_info :: "ydl_opts \<Rightarrow> string \<Rightarrow> exn + info"
  unquote :: "string \<Rightarrow> string"

text \<open>A request is its query string, \<open>request.args\<close>: \<open>get\<close> returns the first value
  of a key.\<close>

record request =
  args :: "(string \<times> string) list"

definition arg :: "request \<Rightarrow> string \<Rightarrow> string option" where
  "arg req k = map_of (args req) k"

text \<open>A reply is a JSON body and a status code. Each handler also returns the extraction
  calls it made, in order.\<close>

type_synonym response = "json \<times> nat"
type_synonym call = "ydl_opts \<times> string"

section \<open>Configuration\<close>

definition API_KEY :: string where
  "API_KEY = ''AAYUSEXDOWNLOADER''"

definition MAX_DURATION :: int where
  "MAX_DURATION = 3600"

section \<open>Strings\<close>

text \<open>\<open>str(n)\<close> for an integer, as an f-string renders it.\<close>

fun str_nat :: "nat \<Rightarrow> string" where
  "str_nat n = (if n < 10 then [char_of (48 + n)] else str_nat (n div 10) @ [char_of (48 + n mod 10)])"

declare str_nat.simps [simp del]

definition str_int :: "int \<Rightarrow> string" where
  "str_int i = (if i < 0 then CHR ''-'' # str_nat (nat (- i)) else str_nat (nat i))"

text \<open>\<open>str.lower()\<close> on code points below 256.\<close>

definition lower_char :: "char \<Rightarrow> char" where
  "lower_char c =
     (let n = (of_char c :: nat)
      in if (65 \<le> n \<and> n \<le> 90) \<or> (192 \<le> n \<and> n \<le> 222 \<and> n \<noteq> 215) then char_of (n + 32) else c)"

definition lower :: "string \<Rightarrow> string" where
  "lower s = map lower_char s"

definition jsonify_failed :: "string \<Rightarrow> json" where
  "jsonify_failed msg = JObj [(''error'', JStr msg), (''status'', JStr ''failed'')]"

section \<open>\<open>require_api_key\<close>\<close>

definition require_api_key ::
  "(request \<Rightarrow> response \<times> call list) \<Rightarrow> request \<Rightarrow> response \<times> call list" where
  "require_api_key f req =
     (let api_key = arg req ''apikey''
      in if api_key = None \<or> api_key = Some [] \<or> api_key \<noteq> Some API_KEY
         then ((jsonify_failed ''Invalid or missing API key'', 401), [])
         else f req)"

section \<open>\<open>extract_video_id\<close>\<close>

text \<open>The character class \<open>[^&\n?#]\<close>.\<close>

definition id_char :: "char \<Rightarrow> bool" where
  "id_char c \<longleftrightarrow> c \<noteq> CHR ''&'' \<and> c \<noteq> CHR 0x0A \<and> c \<noteq> CHR ''?'' \<and> c \<noteq> CHR ''#''"

text \<open>
  Each pattern is an alternation of literal prefixes followed by \<open>([^&\n?#]+)\<close>.
  \<open>match_here\<close> tries the alternatives in order at the start of \<open>s\<close>; the group is
  greedy and needs one character at least. \<open>re_search\<close> is \<open>re.search\<close>: the leftmost
  position with a match.
\<close>

fun match_here :: "string list \<Rightarrow> string \<Rightarrow> string option" where
  "match_here [] s = None"
| "match_here (p # ps) s =
     (if take (length p) s = p \<and> takeWhile id_char (drop (length p) s) \<noteq> []
      then Some (takeWhile id_char (drop (length p) s))
      else match_here ps s)"

fun re_search :: "string list \<Rightarrow> string \<Rightarrow> string option" where
  "re_search alts [] = match_here alts []"
| "re_search alts (c # cs) =
     (case match_here alts (c # cs) of Some g \<Rightarrow> Some g | None \<Rightarrow> re_search alts cs)"

definition patterns :: "string list list" where
  "patterns =
     [[''youtube.com/watch?v='', ''youtu.be/'', ''youtube.com/embed/''],
      [''youtube.com/v/'']]"

fun first_match :: "string list list \<Rightarrow> string \<Rightarrow> string option" where
  "first_match [] url = None"
| "first_match (pattern # rest) url =
     (case re_search pattern url of Some g \<Rightarrow> Some g | None \<Rightarrow> first_match rest url)"

definition extract_video_id :: "string \<Rightarrow> string option" where
  "extract_video_id url = first_match patterns url"

section \<open>\<open>get_video_info\<close>\<close>

definition probe_opts :: ydl_opts where
  "probe_opts =
     \<lparr>opt_format = ''best'', opt_extractaudio = Some False, opt_audioformat = None,
      opt_quiet = True, opt_no_warnings = True\<rparr>"

definition too_long :: "int \<Rightarrow> string" where
  "too_long duration =
     ''Video too long ('' @ str_int duration @ ''s). Maximum allowed: '' @ str_int MAX_DURATION @ ''s''"

text \<open>
  The function returns the pair \<open>(info, error)\<close>. Everything raised inside it, the
  comparison of a \<open>None\<close> duration with the ceiling included, is caught and becomes the
  error text.
\<close>

definition get_video_info :: "env \<Rightarrow> string \<Rightarrow> (info option \<times> string option) \<times> call list" where
  "get_video_info e url =
     (case extract_info e probe_opts url of
        Inl ex \<Rightarrow> (None, Some (str_exn ex))
      | Inr info \<Rightarrow>
          (case get_or (i_duration info) 0 of
             None \<Rightarrow> (None, Some (str_exn (not_supported ''>'' ''NoneType'' ''int'')))
           | Some duration \<Rightarrow>
               if duration > MAX_DURATION then (None, Some (too_long duration))
               else (Some info, None)),
      [(probe_opts, url)])"

section \<open>\<open>youtube_downloader\<close>: the options of the second extraction call\<close>

definition format_selector :: "string \<Rightarrow> string" where
  "format_selector quality =
     (if quality = ''best'' then ''best''
      else if quality \<in> set [''144p'', ''240p'', ''360p'', ''480p'', ''720p'', ''1080p'']
      then (let height = butlast quality in ''best[height<='' @ height @ '']'')
      else ''best'')"

definition build_ydl_opts :: "string \<Rightarrow> string \<Rightarrow> ydl_opts" where
  "build_ydl_opts format_type quality =
     (if format_type = ''mp3''
      then \<lparr>opt_format = ''bestaudio/best'', opt_extractaudio = Some True,
            opt_audioformat = Some ''mp3'', opt_quiet = True, opt_no_warnings = True\<rparr>
      else \<lparr>opt_format = format_selector quality, opt_extractaudio = None,
            opt_audioformat = None, opt_quiet = True, opt_no_warnings = True\<rparr>)"

section \<open>\<open>youtube_downloader\<close>: filtering, sorting and the links\<close>

text \<open>The loop over \<open>formats\<close> that appends to \<open>filtered_formats\<close>.\<close>

fun filter_loop :: "string \<Rightarrow> fmt list \<Rightarrow> fmt list \<Rightarrow> fmt list" where
  "filter_loop format_type [] filtered_formats = filtered_formats"
| "filter_loop format_type (fmt # formats) filtered_formats =
     (if format_type = ''mp3''
      then (if f_acodec fmt \<noteq> Val ''none'' \<and> f_vcodec fmt = Val ''none''
            then filter_loop format_type formats (filtered_formats @ [fmt])
            else filter_loop format_type formats filtered_formats)
      else (if f_vcodec fmt \<noteq> Val ''none''
            then filter_loop format_type formats (filtered_formats @ [fmt])
            else filter_loop format_type formats filtered_formats))"

definition filter_formats :: "string \<Rightarrow> fmt list \<Rightarrow> fmt list" where
  "filter_formats format_type formats = filter_loop format_type formats []"

text \<open>The sort keys \<open>x.get('height', 0)\<close> and \<open>x.get('abr', 0)\<close>.\<close>

definition height_key :: "fmt \<Rightarrow> int option" where
  "height_key x = get_or (f_height x) 0"

definition abr_key :: "fmt \<Rightarrow> int option" where
  "abr_key x = get_or (f_abr x) 0"

definition type_name :: "int option \<Rightarrow> string" where
  "type_name k = (case k of None \<Rightarrow> ''NoneType'' | Some _ \<Rightarrow> ''int'')"

text \<open>
  \<open>list.sort(key=..., reverse=True)\<close>. The interpreter reverses the list, sorts it
  stably in ascending order of the keys and reverses it again, so that elements with
  equal keys keep their order. A list of two or more elements has every key compared,
  and comparing \<open>None\<close> with anything raises \<open>TypeError\<close>; a shorter list is never
  compared. The text of the error names the operands of the first failing comparison,
  which is decided by the first two elements of the reversed list (for lists below 64
  elements; a longer list may meet a \<open>None\<close> at the head of a later run, with the
  operand names swapped).
\<close>

definition lt_error :: "int option list \<Rightarrow> exn" where
  "lt_error reversed_keys =
     (case reversed_keys of
        a # b # _ \<Rightarrow>
          (if a = None then not_supported ''<'' (type_name b) ''NoneType''
           else not_supported ''<'' ''NoneType'' ''int'')
      | _ \<Rightarrow> not_supported ''<'' ''NoneType'' ''int'')"

definition sort_reverse :: "('a \<Rightarrow> int option) \<Rightarrow> 'a list \<Rightarrow> exn + 'a list" where
  "sort_reverse key xs =
     (if 2 \<le> length xs \<and> None \<in> set (map key xs)
      then Inl (lt_error (map key (rev xs)))
      else Inr (rev (sort_key (\<lambda>x. case key x of None \<Rightarrow> 0 | Some k \<Rightarrow> k) (rev xs))))"

definition sort_formats :: "string \<Rightarrow> fmt list \<Rightarrow> exn + fmt list" where
  "sort_formats format_type filtered_formats =
     (if format_type \<noteq> ''mp3'' then sort_reverse height_key filtered_formats
      else sort_reverse abr_key filtered_formats)"

text \<open>The truth value of \<open>fmt.get('url')\<close>.\<close>

definition has_url :: "fmt \<Rightarrow> bool" where
  "has_url fmt = (case f_url fmt of Val u \<Rightarrow> u \<noteq> [] | _ \<Rightarrow> False)"

text \<open>\<open>{fmt.get(k, 'Unknown')}\<close> inside an f-string.\<close>

definition fstr_get :: "int field \<Rightarrow> string \<Rightarrow> string" where
  "fstr_get v dflt = (case v of Absent \<Rightarrow> dflt | Null \<Rightarrow> ''None'' | Val n \<Rightarrow> str_int n)"

definition link_info :: "string \<Rightarrow> fmt \<Rightarrow> json" where
  "link_info format_type fmt =
     JObj ([(''format_id'', dict_get JStr (f_format_id fmt)),
            (''url'', dict_get JStr (f_url fmt)),
            (''ext'', dict_get JStr (f_ext fmt)),
            (''quality'', dict_get_default JStr (f_format_note fmt) (JStr ''Unknown'')),
            (''filesize'', dict_get JInt (f_filesize fmt))] @
           (if format_type \<noteq> ''mp3''
            then [(''resolution'',
                     JStr (fstr_get (f_width fmt) ''Unknown'' @ ''x'' @ fstr_get (f_height fmt) ''Unknown'')),
                  (''fps'', dict_get JInt (f_fps fmt)),
                  (''vcodec'', dict_get JStr (f_vcodec fmt)),
                  (''acodec'', dict_get JStr (f_acodec fmt))]
            else [(''bitrate'', dict_get JInt (f_abr fmt)),
                  (''sample_rate'', dict_get JInt (f_asr fmt))]))"

text \<open>The loop over \<open>filtered_formats[:5]\<close> that appends to \<open>download_links\<close>.\<close>

fun links_loop :: "string \<Rightarrow> fmt list \<Rightarrow> json list \<Rightarrow> json list" where
  "links_loop format_type [] download_links = download_links"
| "links_loop format_type (fmt # rest) download_links =
     (if has_url fmt
      then links_loop format_type rest (download_links @ [link_info format_type fmt])
      else links_loop format_type rest download_links)"

text \<open>The branch on \<open>'formats' in info\<close>: a key holding \<open>None\<close> is in the dictionary, and
  iterating over it raises.\<close>

definition download_links :: "string \<Rightarrow> string \<Rightarrow> info \<Rightarrow> exn + json list" where
  "download_links format_type quality info =
     (case i_formats info of
        Absent \<Rightarrow>
          Inr [JObj [(''format_id'', JStr ''single''),
                     (''url'', dict_get_default JStr (i_url info) (JStr [])),
                     (''ext'', JStr format_type),
                     (''quality'', JStr quality)]]
      | Null \<Rightarrow> Inl (TypeError (quoted ''NoneType'' @ '' object is not iterable''))
      | Val formats \<Rightarrow>
          (case sort_formats format_type (filter_formats format_type formats) of
             Inl ex \<Rightarrow> Inl ex
           | Inr filtered_formats \<Rightarrow> Inr (links_loop format_type (take 5 filtered_formats) [])))"

section \<open>\<open>youtube_downloader\<close>: the reply\<close>

text \<open>\<open>info.get('description', '')[:500] + '...' if info.get('description', '') else ''\<close>.\<close>

definition short_description :: "info \<Rightarrow> json" where
  "short_description info =
     (case i_description info of
        Val d \<Rightarrow> if d \<noteq> [] then JStr (take 500 d @ ''...'') else JStr []
      | _ \<Rightarrow> JStr [])"

definition download_response :: "info \<Rightarrow> json list \<Rightarrow> string \<Rightarrow> string \<Rightarrow> json" where
  "download_response info links format_type quality =
     JObj [(''status'', JStr ''success''),
           (''video_info'',
              JObj [(''id'', dict_get JStr (i_id info)),
                    (''title'', dict_get JStr (i_title info)),
                    (''uploader'', dict_get JStr (i_uploader info)),
                    (''duration'', dict_get JInt (i_duration info)),
                    (''view_count'', dict_get JInt (i_view_count info)),
                    (''description'', short_description info),
                    (''thumbnail'', dict_get JStr (i_thumbnail info)),
                    (''upload_date'', dict_get JStr (i_upload_date info))]),
           (''download_links'', JArr links),
           (''requested_format'', JStr format_type),
           (''requested_quality'', JStr quality)]"

text \<open>Lines 129 to 230: the second extraction call and what follows it. Whatever is
  raised here reaches the handler's outer \<open>except\<close>.\<close>

definition resolve :: "env \<Rightarrow> string \<Rightarrow> string \<Rightarrow> string \<Rightarrow> exn + json" where
  "resolve e url format_type quality =
     (case extract_info e (build_ydl_opts format_type quality) url of
        Inl ex \<Rightarrow> Inl ex
      | Inr info \<Rightarrow>
          (case download_links format_type quality info of
             Inl ex \<Rightarrow> Inl ex
           | Inr links \<Rightarrow> Inr (download_response info links format_type quality)))"

text \<open>The handler before decoration. An error text is tested for truth, so an empty
  text counts as no error.\<close>

definition youtube_downloader_body :: "env \<Rightarrow> request \<Rightarrow> response \<times> call list" where
  "youtube_downloader_body e req =
     (let format_type = lower (case arg req ''format'' of None \<Rightarrow> ''mp4'' | Some v \<Rightarrow> v);
          quality = lower (case arg req ''quality'' of None \<Rightarrow> ''best'' | Some v \<Rightarrow> v)
      in case arg req ''url'' of
           None \<Rightarrow> ((jsonify_failed ''URL parameter is required'', 400), [])
         | Some [] \<Rightarrow> ((jsonify_failed ''URL parameter is required'', 400), [])
         | Some raw \<Rightarrow>
             (let url = unquote e raw
              in case extract_video_id url of
                   None \<Rightarrow> ((jsonify_failed ''Invalid YouTube URL'', 400), [])
                 | Some video_id \<Rightarrow>
                     (case get_video_info e url of
                        ((info, Some (c # cs)), calls) \<Rightarrow> ((jsonify_failed (c # cs), 400), calls)
                      | ((info, _), calls) \<Rightarrow>
                          (case resolve e url format_type quality of
                             Inl ex \<Rightarrow>
                               ((jsonify_failed (''Failed to process video: '' @ str_exn ex), 500),
                                calls @ [(build_ydl_opts format_type quality, url)])
                           | Inr body \<Rightarrow>
                               ((body, 200), calls @ [(build_ydl_opts format_type quality, url)])))))"

definition youtube_downloader :: "env \<Rightarrow> request \<Rightarrow> response \<times> call list" where
  "youtube_downloader e = require_api_key (youtube_downloader_body e)"

section \<open>\<open>video_info\<close>\<close>

definition info_response :: "info \<Rightarrow> exn + json" where
  "info_response info =
     (case i_tags info of
        Null \<Rightarrow> Inl (TypeError (quoted ''NoneType'' @ '' object is not subscriptable''))
      | tags \<Rightarrow>
          Inr (JObj [(''status'', JStr ''success''),
                     (''video_info'',
                        JObj [(''id'', dict_get JStr (i_id info)),
                              (''title'', dict_get JStr (i_title info)),
                              (''uploader'', dict_get JStr (i_uploader info)),
                              (''duration'', dict_get JInt (i_duration info)),
                              (''view_count'', dict_get JInt (i_view_count info)),
                              (''like_count'', dict_get JInt (i_like_count info)),
                              (''description'', dict_get_default JStr (i_description info) (JStr [])),
                              (''thumbnail'', dict_get JStr (i_thumbnail info)),
                              (''upload_date'', dict_get JStr (i_upload_date info)),
                              (''categories'',
                                 dict_get_default (\<lambda>cs. JArr (map JStr cs)) (i_categories info) (JArr [])),
                              (''tags'',
                                 JArr (map JStr (take 10 (case tags of Val ts \<Rightarrow> ts | _ \<Rightarrow> [])))),
                              (''webpage_url'', dict_get JStr (i_webpage_url info))])]))"

definition video_info_body :: "env \<Rightarrow> request \<Rightarrow> response \<times> call list" where
  "video_info_body e req =
     (case arg req ''url'' of
        None \<Rightarrow> ((jsonify_failed ''URL parameter is required'', 400), [])
      | Some [] \<Rightarrow> ((jsonify_failed ''URL parameter is required'', 400), [])
      | Some raw \<Rightarrow>
          (let url = unquote e raw
           in case extract_video_id url of
                None \<Rightarrow> ((jsonify_failed ''Invalid YouTube URL'', 400), [])
              | Some video_id \<Rightarrow>
                  (case get_video_info e url of
                     ((info, Some (c # cs)), calls) \<Rightarrow> ((jsonify_failed (c # cs), 400), calls)
                   | ((None, _), calls) \<Rightarrow>
                       ((jsonify_failed
                           (''Failed to get video info: '' @
                            str_exn (AttributeError
                              (quoted ''NoneType'' @ '' object has no attribute '' @ quoted ''get''))), 500),
                        calls)
                   | ((Some info, _), calls) \<Rightarrow>
                       (case info_response info of
                          Inl ex \<Rightarrow>
                            ((jsonify_failed (''Failed to get video info: '' @ str_exn ex), 500), calls)
                        | Inr body \<Rightarrow> ((body, 200), calls)))))"

definition video_info :: "env \<Rightarrow> request \<Rightarrow> response \<times> call list" where
  "video_info e = require_api_key (video_info_body e)"

section \<open>The specification's vocabulary\<close>

text \<open>The classification of the data model: a descriptor is audio-only when its video
  codec is the sentinel \<open>none\<close> and its audio codec is not; it contains video when its
  video codec is not the sentinel.\<close>

definition audio_only :: "fmt \<Rightarrow> bool" where
  "audio_only fmt \<longleftrightarrow> f_vcodec fmt = Val ''none'' \<and> f_acodec fmt \<noteq> Val ''none''"

definition contains_video :: "fmt \<Rightarrow> bool" where
  "contains_video fmt \<longleftrightarrow> f_vcodec fmt \<noteq> Val ''none''"

definition requested_kind :: "string \<Rightarrow> fmt \<Rightarrow> bool" where
  "requested_kind format_type fmt = (if format_type = ''mp3'' then audio_only fmt else contains_video fmt)"

text \<open>The ranking key with a missing value counted as zero: the height for a video
  request, the average bitrate for an \<open>mp3\<close> request.\<close>

definition rank_key :: "string \<Rightarrow> fmt \<Rightarrow> int" where
  "rank_key format_type x =
     (case (if format_type \<noteq> ''mp3'' then height_key x else abr_key x) of
        None \<Rightarrow> 0
      | Some k \<Rightarrow> k)"

text \<open>A stable sort in descending order of an integer key.\<close>

definition stable_desc :: "('a \<Rightarrow> int) \<Rightarrow> 'a list \<Rightarrow> 'a list" where
  "stable_desc key xs = rev (sort_key key (rev xs))"

text \<open>The selector as the specification words it, in its order of steps: keep the
  requested kind, discard the descriptors without a usable URL, sort, truncate to 5.\<close>

definition spec_ranked :: "string \<Rightarrow> fmt list \<Rightarrow> fmt list" where
  "spec_ranked format_type formats =
     take 5 (stable_desc (rank_key format_type)
               (filter has_url (filter (requested_kind format_type) formats)))"

text \<open>Reading a member of a JSON object, the tag list of a reply, and replacing a member
  that the object has.\<close>

definition json_get :: "json \<Rightarrow> string \<Rightarrow> json option" where
  "json_get j k = (case j of JObj kvs \<Rightarrow> map_of kvs k | _ \<Rightarrow> None)"

definition reply_tags :: "response \<Rightarrow> json option" where
  "reply_tags r =
     (case json_get (fst r) ''video_info'' of
        None \<Rightarrow> None
      | Some v \<Rightarrow> json_get v ''tags'')"

definition json_replace :: "string \<Rightarrow> json \<Rightarrow> json \<Rightarrow> json" where
  "json_replace k v j =
     (case j of
        JObj kvs \<Rightarrow> JObj (map (\<lambda>(k', v'). if k' = k then (k', v) else (k', v')) kvs)
      | _ \<Rightarrow> j)"

section \<open>Concrete inputs\<close>

definition empty_fmt :: fmt where
  "empty_fmt =
     \<lparr>f_format_id = Absent, f_url = Absent, f_ext = Absent, f_format_note = Absent,
      f_filesize = Absent, f_width = Absent, f_height = Absent, f_fps = Absent,
      f_vcodec = Absent, f_acodec = Absent, f_abr = Absent, f_asr = Absent\<rparr>"

definition empty_info :: info where
  "empty_info =
     \<lparr>i_id = Absent, i_title = Absent, i_uploader = Absent, i_duration = Absent,
      i_view_count = Absent, i_like_count = Absent, i_description = Absent,
      i_thumbnail = Absent, i_upload_date = Absent, i_categories = Absent, i_tags = Absent,
      i_webpage_url = Absent, i_url = Absent, i_formats = Absent\<rparr>"

text \<open>A fake extractor: one fixed result for the probe call, one for every other call.\<close>

definition fake_env :: "(exn + info) \<Rightarrow> (exn + info) \<Rightarrow> env" where
  "fake_env probe_result resolve_result =
     \<lparr>extract_info = (\<lambda>opts url. if opts = probe_opts then probe_result else resolve_result),
      unquote = (\<lambda>s. s)\<rparr>"

definition demo_url :: string where
  "demo_url = ''https://youtu.be/abc''"

definition demo_request :: "string \<Rightarrow> string \<Rightarrow> request" where
  "demo_request format_type quality =
     \<lparr>args = [(''url'', demo_url), (''apikey'', ''AAYUSEXDOWNLOADER''),
              (''format'', format_type), (''quality'', quality)]\<rparr>"

definition video :: "string \<Rightarrow> int field \<Rightarrow> string field \<Rightarrow> fmt" where
  "video name h u =
     empty_fmt\<lparr>f_format_id := Val name, f_vcodec := Val ''avc1'', f_height := h, f_url := u\<rparr>"

definition audio :: "string \<Rightarrow> int field \<Rightarrow> fmt" where
  "audio name b =
     empty_fmt\<lparr>f_format_id := Val name, f_vcodec := Val ''none'', f_acodec := Val ''opus'',
               f_abr := b, f_url := Val (''https://cdn.example/'' @ name)\<rparr>"

text \<open>The catalog of eight video descriptors with the heights 144, 240, 360, 480, 720,
  720, 1080 and 0; the descriptor named by the argument has no URL.\<close>

definition catalog8 :: "string \<Rightarrow> fmt list" where
  "catalog8 url_less =
     map (\<lambda>(name, h). video name (Val h)
                         (if name = url_less then Absent else Val (''https://cdn.example/'' @ name)))
       [(''a'', 144), (''b'', 240), (''c'', 360), (''d'', 480),
        (''e'', 720), (''f'', 720), (''g'', 1080), (''h'', 0)]"

section \<open>Facts shared by the claims\<close>

lemma str_int_MAX_DURATION: "str_int MAX_DURATION = ''3600''"
  by code_simp

lemma API_KEY_truthy: "API_KEY \<noteq> []"
  by (simp add: API_KEY_def)

lemma require_api_key_accepts:
  "arg req ''apikey'' = Some API_KEY \<Longrightarrow> require_api_key f req = f req"
  by (simp add: require_api_key_def API_KEY_truthy)

lemma get_video_info_too_long:
  assumes "extract_info e probe_opts url = Inr info"
      and "i_duration info = Val d" and "d > MAX_DURATION"
  shows "get_video_info e url = ((None, Some (too_long d)), [(probe_opts, url)])"
  using assms by (simp add: get_video_info_def get_or_def)

lemma get_video_info_pass:
  assumes "extract_info e probe_opts url = Inr info"
      and "get_or (i_duration info) 0 = Some d" and "d \<le> MAX_DURATION"
  shows "get_video_info e url = ((Some info, None), [(probe_opts, url)])"
  using assms by (simp add: get_video_info_def)

lemma get_video_info_raise:
  assumes "extract_info e probe_opts url = Inl ex"
  shows "get_video_info e url = ((None, Some (str_exn ex)), [(probe_opts, url)])"
  using assms by (simp add: get_video_info_def)

lemma too_long_text:
  "too_long d = ''Video too long ('' @ str_int d @ ''s). Maximum allowed: 3600s''"
  by (simp add: too_long_def str_int_MAX_DURATION)

lemma filter_loop_append:
  "filter_loop format_type formats acc = acc @ filter (requested_kind format_type) formats"
  by (induction formats arbitrary: acc)
     (auto simp: requested_kind_def audio_only_def contains_video_def)

lemma link_info_video: "format_type \<noteq> ''mp3'' \<Longrightarrow> link_info format_type = link_info ''mp4''"
  by (rule ext) (simp add: link_info_def)

lemma requested_kind_video:
  "format_type \<noteq> ''mp3'' \<Longrightarrow> requested_kind format_type = requested_kind ''mp4''"
  by (rule ext) (simp add: requested_kind_def)

lemma links_loop_append:
  "links_loop format_type xs acc = acc @ map (link_info format_type) (filter has_url xs)"
  by (induction xs arbitrary: acc) auto

lemma json_replace_failed:
  "json_replace ''requested_format'' v (jsonify_failed msg) = jsonify_failed msg"
  by (simp add: json_replace_def jsonify_failed_def)

lemma json_replace_download_response:
  "json_replace ''requested_format'' (JStr ft') (download_response info links ft quality)
     = download_response info links ft' quality"
  by (simp add: json_replace_def download_response_def)

lemma links_loop_video: "ft \<noteq> ''mp3'' \<Longrightarrow> links_loop ft = links_loop ''mp4''"
  by (intro ext) (simp add: links_loop_append link_info_video [of ft])

lemma download_links_video:
  assumes "ft \<noteq> ''mp3''" and "i_formats info \<noteq> Absent"
  shows "download_links ft quality info = download_links ''mp4'' quality info"
  using assms
  by (cases "i_formats info")
     (simp_all add: download_links_def sort_formats_def filter_formats_def filter_loop_append
        links_loop_video [of ft] requested_kind_video [of ft] split: sum.split)

lemma resolve_video_cases:
  assumes "ft \<noteq> ''mp3''"
  shows "(\<exists>ex. resolve e url ft quality = Inl ex \<and> resolve e url ''mp4'' quality = Inl ex)
       \<or> (\<exists>b1 b2. resolve e url ft quality = Inr b2 \<and> resolve e url ''mp4'' quality = Inr b1
             \<and> ((\<forall>info. extract_info e (build_ydl_opts ''mp4'' quality) url = Inr info
                        \<longrightarrow> i_formats info \<noteq> Absent)
                  \<longrightarrow> b2 = json_replace ''requested_format'' (JStr ft) b1))"
proof -
  have opts: "build_ydl_opts ft quality = build_ydl_opts ''mp4'' quality"
    using assms by (simp add: build_ydl_opts_def)
  show ?thesis
  proof (cases "extract_info e (build_ydl_opts ''mp4'' quality) url")
    case (Inl ex)
    then show ?thesis by (simp add: resolve_def opts)
  next
    case (Inr info)
    show ?thesis
    proof (cases "i_formats info = Absent")
      case True
      then show ?thesis
        using Inr by (simp add: resolve_def opts download_links_def)
    next
      case False
      then have "download_links ft quality info = download_links ''mp4'' quality info"
        using assms by (rule download_links_video [rotated])
      then show ?thesis
        using Inr by (cases "download_links ''mp4'' quality info")
                     (simp_all add: resolve_def opts json_replace_download_response)
    qed
  qed
qed

lemma lower_labels: "lower ''mp4'' = ''mp4''" "lower ''webm'' = ''webm''" "lower ''best'' = ''best''"
  by code_simp+

lemma youtube_downloader_body_cases:
  "youtube_downloader_body e req =
     (case arg req ''url'' of
        None \<Rightarrow> ((jsonify_failed ''URL parameter is required'', 400), [])
      | Some [] \<Rightarrow> ((jsonify_failed ''URL parameter is required'', 400), [])
      | Some (c # cs) \<Rightarrow>
          (case extract_video_id (unquote e (c # cs)) of
             None \<Rightarrow> ((jsonify_failed ''Invalid YouTube URL'', 400), [])
           | Some video_id \<Rightarrow>
               (case snd (fst (get_video_info e (unquote e (c # cs)))) of
                  Some (m # ms) \<Rightarrow> ((jsonify_failed (m # ms), 400), snd (get_video_info e (unquote e (c # cs))))
                | _ \<Rightarrow>
                   (case resolve e (unquote e (c # cs))
                           (lower (case arg req ''format'' of None \<Rightarrow> ''mp4'' | Some v \<Rightarrow> v))
                           (lower (case arg req ''quality'' of None \<Rightarrow> ''best'' | Some v \<Rightarrow> v)) of
                      Inl ex \<Rightarrow>
                        ((jsonify_failed (''Failed to process video: '' @ str_exn ex), 500),
                         snd (get_video_info e (unquote e (c # cs))) @
                         [(build_ydl_opts
                             (lower (case arg req ''format'' of None \<Rightarrow> ''mp4'' | Some v \<Rightarrow> v))
                             (lower (case arg req ''quality'' of None \<Rightarrow> ''best'' | Some v \<Rightarrow> v)),
                           unquote e (c # cs))])
                    | Inr body \<Rightarrow>
                        ((body, 200),
                         snd (get_video_info e (unquote e (c # cs))) @
                         [(build_ydl_opts
                             (lower (case arg req ''format'' of None \<Rightarrow> ''mp4'' | Some v \<Rightarrow> v))
                             (lower (case arg req ''quality'' of None \<Rightarrow> ''best'' | Some v \<Rightarrow> v)),
                           unquote e (c # cs))])))))"
  unfolding youtube_downloader_body_def Let_def
  by (simp split: option.split list.split prod.split sum.split)

lemma mset_stable_desc: "mset (stable_desc key xs) = mset xs"
  by (simp add: stable_desc_def)

lemma sorted_stable_desc: "sorted_wrt (\<lambda>x y. key x \<ge> key y) (stable_desc key xs)"
proof -
  have "sorted (map key (sort_key key (rev xs)))"
    by (rule sorted_sort_key)
  then have "sorted_wrt (\<lambda>x y. key x \<le> key y) (sort_key key (rev xs))"
    by (simp add: sorted_wrt_map)
  then show ?thesis
    by (simp add: stable_desc_def sorted_wrt_rev)
qed

lemma stable_desc_stable:
  "filter (\<lambda>x. key x = k) (stable_desc key xs) = filter (\<lambda>x. key x = k) xs"
proof -
  have "filter (\<lambda>x. key x = k) (stable_desc key xs)
          = rev (filter (\<lambda>x. key x = k) (sort_key key (rev xs)))"
    by (simp add: stable_desc_def rev_filter)
  also have "\<dots> = rev (filter (\<lambda>x. key x = k) (rev xs))"
    by (simp only: sort_key_stable)
  also have "\<dots> = filter (\<lambda>x. key x = k) xs"
    by (simp add: rev_filter)
  finally show ?thesis .
qed

lemma filter_stable_desc: "filter P (stable_desc key xs) = stable_desc key (filter P xs)"
  by (simp add: stable_desc_def rev_filter [symmetric] filter_sort)

lemma take_filter_all: "\<forall>x \<in> set (take n xs). P x \<Longrightarrow> take n (filter P xs) = take n xs"
proof (induction xs arbitrary: n)
  case Nil
  then show ?case by simp
next
  case (Cons x xs)
  then show ?case by (cases n) auto
qed

lemma sort_reverse_ok:
  assumes "length xs < 2 \<or> None \<notin> set (map key xs)"
  shows "sort_reverse key xs = Inr (stable_desc (\<lambda>x. case key x of None \<Rightarrow> 0 | Some k \<Rightarrow> k) xs)"
  using assms by (auto simp: sort_reverse_def stable_desc_def)

lemma sort_formats_ok:
  assumes "length xs < 2
         \<or> None \<notin> set (map (if format_type \<noteq> ''mp3'' then height_key else abr_key) xs)"
  shows "sort_formats format_type xs = Inr (stable_desc (rank_key format_type) xs)"
proof (cases "format_type \<noteq> ''mp3''")
  case True
  then have "rank_key format_type = (\<lambda>x. case height_key x of None \<Rightarrow> 0 | Some k \<Rightarrow> k)"
    by (intro ext) (simp add: rank_key_def)
  then show ?thesis
    using True assms sort_reverse_ok [of xs height_key] by (simp add: sort_formats_def)
next
  case False
  then have "rank_key format_type = (\<lambda>x. case abr_key x of None \<Rightarrow> 0 | Some k \<Rightarrow> k)"
    by (intro ext) (simp add: rank_key_def)
  then show ?thesis
    using False assms sort_reverse_ok [of xs abr_key] by (simp add: sort_formats_def)
qed

text \<open>The demonstration request passes the key check and the URL validator.\<close>

lemma demo_request_args:
  "arg (demo_request format_type quality) ''apikey'' = Some API_KEY"
  "arg (demo_request format_type quality) ''url'' = Some demo_url"
  "arg (demo_request format_type quality) ''format'' = Some format_type"
  "arg (demo_request format_type quality) ''quality'' = Some quality"
  by (simp_all add: arg_def demo_request_def API_KEY_def)

lemma demo_url_truthy: "demo_url \<noteq> []"
  by (simp add: demo_url_def)

lemma demo_url_valid: "extract_video_id (unquote (fake_env p r) demo_url) \<noteq> None"
proof -
  have "extract_video_id demo_url \<noteq> None"
    by code_simp
  then show ?thesis
    by (simp add: fake_env_def)
qed

lemma fake_env_calls:
  "unquote (fake_env p r) u = u"
  "extract_info (fake_env p r) probe_opts u = p"
  "opts \<noteq> probe_opts \<Longrightarrow> extract_info (fake_env p r) opts u = r"
  by (simp_all add: fake_env_def)

lemma build_ydl_opts_not_probe: "build_ydl_opts format_type quality \<noteq> probe_opts"
  by (simp add: build_ydl_opts_def probe_opts_def)

section \<open>The API key check\<close>

text \<open>
  Claim C5. A request to a protected route whose \<open>apikey\<close> parameter is absent or differs
  from the configured secret is answered with status 401 and the structured error body,
  whatever the wrapped handler is: the handler is not run, and neither route makes an
  extraction call.
\<close>

theorem require_api_key_rejects:
  assumes "arg req ''apikey'' \<noteq> Some API_KEY"
  shows "require_api_key f req = ((jsonify_failed ''Invalid or missing API key'', 401), [])
       \<and> youtube_downloader e req = ((jsonify_failed ''Invalid or missing API key'', 401), [])
       \<and> video_info e req = ((jsonify_failed ''Invalid or missing API key'', 401), [])"
  using assms by (simp add: require_api_key_def youtube_downloader_def video_info_def)

theorem require_api_key_rejects_witness:
  "arg \<lparr>args = [(''url'', demo_url), (''apikey'', ''aayusexdownloader'')]\<rparr> ''apikey'' \<noteq> Some API_KEY
   \<and> youtube_downloader (fake_env (Inr empty_info) (Inr empty_info))
        \<lparr>args = [(''url'', demo_url), (''apikey'', ''aayusexdownloader'')]\<rparr>
      = ((jsonify_failed ''Invalid or missing API key'', 401), [])
   \<and> arg \<lparr>args = [(''url'', demo_url)]\<rparr> ''apikey'' \<noteq> Some API_KEY
   \<and> video_info (fake_env (Inr empty_info) (Inr empty_info)) \<lparr>args = [(''url'', demo_url)]\<rparr>
      = ((jsonify_failed ''Invalid or missing API key'', 401), [])"
proof -
  have a: "arg \<lparr>args = [(''url'', demo_url), (''apikey'', ''aayusexdownloader'')]\<rparr> ''apikey'' \<noteq> Some API_KEY"
    by (simp add: arg_def API_KEY_def)
  have b: "arg \<lparr>args = [(''url'', demo_url)]\<rparr> ''apikey'' \<noteq> Some API_KEY"
    by (simp add: arg_def)
  show ?thesis
    using a b require_api_key_rejects [OF a] require_api_key_rejects [OF b] by blast
qed

section \<open>The kind filter\<close>

text \<open>
  Claim C6. The loop that fills \<open>filtered_formats\<close> keeps a descriptor of the catalog for
  an \<open>mp3\<close> request exactly when its video codec is \<open>none\<close> and its audio codec is not
  \<open>none\<close>, and for any other request exactly when its video codec is not \<open>none\<close>; the kept
  descriptors stay in catalog order.
\<close>

theorem kind_filter:
  "filter_formats format_type formats =
     filter (\<lambda>fmt. if format_type = ''mp3''
                   then f_vcodec fmt = Val ''none'' \<and> f_acodec fmt \<noteq> Val ''none''
                   else f_vcodec fmt \<noteq> Val ''none'') formats"
proof -
  have "requested_kind format_type =
          (\<lambda>fmt. if format_type = ''mp3''
                 then f_vcodec fmt = Val ''none'' \<and> f_acodec fmt \<noteq> Val ''none''
                 else f_vcodec fmt \<noteq> Val ''none'')"
    by (rule ext) (simp add: requested_kind_def audio_only_def contains_video_def)
  then show ?thesis
    by (simp add: filter_formats_def filter_loop_append)
qed

theorem kind_filter_witness:
  "filter_formats ''mp3'' [video ''v'' (Val 720) Absent, audio ''a'' (Val 128), empty_fmt]
     = [audio ''a'' (Val 128)]
   \<and> filter_formats ''webm'' [video ''v'' (Val 720) Absent, audio ''a'' (Val 128), empty_fmt]
     = [video ''v'' (Val 720) Absent, empty_fmt]"
  using kind_filter [of "''mp3''" "[video ''v'' (Val 720) Absent, audio ''a'' (Val 128), empty_fmt]"]
        kind_filter [of "''webm''" "[video ''v'' (Val 720) Absent, audio ''a'' (Val 128), empty_fmt]"]
  by (simp add: video_def audio_def empty_fmt_def)

section \<open>The format-selector hint\<close>

text \<open>
  Claim C7. For a video request, each quality tier label from \<open>144p\<close> to \<open>1080p\<close> gives
  the hint \<open>best[height<=N]\<close>, where \<open>N\<close> is the label without its last character; \<open>720p\<close>
  gives the ceiling \<open>720\<close>. The label \<open>best\<close> gives the plain hint \<open>best\<close>: the hint is
  built from strings alone, and nothing is parsed as an integer.
\<close>

theorem quality_hint:
  assumes "format_type \<noteq> ''mp3''"
  shows "(quality \<in> set [''144p'', ''240p'', ''360p'', ''480p'', ''720p'', ''1080p''] \<longrightarrow>
            opt_format (build_ydl_opts format_type quality) = ''best[height<='' @ butlast quality @ '']'')
       \<and> opt_format (build_ydl_opts format_type ''720p'') = ''best[height<=720]''
       \<and> opt_format (build_ydl_opts format_type ''best'') = ''best''"
  using assms by (auto simp: build_ydl_opts_def format_selector_def)

theorem quality_hint_witness:
  "''mp4'' \<noteq> ''mp3''
   \<and> ''1080p'' \<in> set [''144p'', ''240p'', ''360p'', ''480p'', ''720p'', ''1080p'']
   \<and> opt_format (build_ydl_opts ''mp4'' ''1080p'') = ''best[height<=1080]''
   \<and> opt_format (build_ydl_opts ''mp4'' ''720p'') = ''best[height<=720]''
   \<and> opt_format (build_ydl_opts ''mp4'' ''best'') = ''best''"
  using quality_hint [of "''mp4''" "''1080p''"] by simp

section \<open>The duration ceiling\<close>

text \<open>
  Claim C4. When a request passes the key check and the URL validator and the probed metadata
  reports a duration strictly above the ceiling of 3600 seconds, both protected routes
  answer with status 400 and the message \<open>Video too long (Ds). Maximum allowed: 3600s\<close>,
  which carries the measured duration \<open>D\<close> and the ceiling; the probe is the only
  extraction call made, so no resolve-mode call happens.
\<close>

theorem too_long_rejected:
  assumes "arg req ''apikey'' = Some API_KEY"
      and "arg req ''url'' = Some raw" and "raw \<noteq> []"
      and "extract_video_id (unquote e raw) \<noteq> None"
      and "extract_info e probe_opts (unquote e raw) = Inr info"
      and "i_duration info = Val d" and "d > MAX_DURATION"
  shows "youtube_downloader e req =
           ((jsonify_failed (''Video too long ('' @ str_int d @ ''s). Maximum allowed: 3600s''), 400),
            [(probe_opts, unquote e raw)])
       \<and> video_info e req =
           ((jsonify_failed (''Video too long ('' @ str_int d @ ''s). Maximum allowed: 3600s''), 400),
            [(probe_opts, unquote e raw)])"
proof -
  obtain raw_hd raw_tl where raw_eq: "raw = raw_hd # raw_tl"
    using assms(3) by (cases raw) auto
  obtain video_id where vid: "extract_video_id (unquote e raw) = Some video_id"
    using assms(4) by auto
  have probe: "get_video_info e (unquote e raw) = ((None, Some (too_long d)), [(probe_opts, unquote e raw)])"
    using assms(5,6,7) by (rule get_video_info_too_long)
  have msg: "too_long d = CHR ''V'' # ''ideo too long ('' @ str_int d @ ''s). Maximum allowed: 3600s''"
    by (simp add: too_long_text)
  have "youtube_downloader_body e req =
           ((jsonify_failed (too_long d), 400), [(probe_opts, unquote e raw)])"
    using assms(2) vid probe unfolding raw_eq msg
    by (simp add: youtube_downloader_body_def Let_def)
  moreover have "video_info_body e req =
           ((jsonify_failed (too_long d), 400), [(probe_opts, unquote e raw)])"
    using assms(2) vid probe unfolding raw_eq msg
    by (simp add: video_info_body_def Let_def)
  ultimately show ?thesis
    using assms(1)
    by (simp add: youtube_downloader_def video_info_def require_api_key_accepts too_long_text)
qed

theorem too_long_rejected_witness:
  "youtube_downloader (fake_env (Inr (empty_info\<lparr>i_duration := Val 3601\<rparr>)) (Inr empty_info))
       (demo_request ''mp4'' ''best'')
     = ((jsonify_failed ''Video too long (3601s). Maximum allowed: 3600s'', 400),
        [(probe_opts, demo_url)])
   \<and> video_info (fake_env (Inr (empty_info\<lparr>i_duration := Val 3601\<rparr>)) (Inr empty_info))
       (demo_request ''mp4'' ''best'')
     = ((jsonify_failed ''Video too long (3601s). Maximum allowed: 3600s'', 400),
        [(probe_opts, demo_url)])"
proof -
  let ?e = "fake_env (Inr (empty_info\<lparr>i_duration := Val 3601\<rparr>)) (Inr empty_info)"
  have 5: "extract_info ?e probe_opts (unquote ?e demo_url) = Inr (empty_info\<lparr>i_duration := Val 3601\<rparr>)"
    by (simp add: fake_env_calls)
  have 6: "i_duration (empty_info\<lparr>i_duration := Val 3601\<rparr>) = Val 3601"
    by simp
  have 7: "(3601::int) > MAX_DURATION"
    by (simp add: MAX_DURATION_def)
  have s: "str_int 3601 = ''3601''"
    by code_simp
  show ?thesis
    using too_long_rejected [OF demo_request_args(1,2) demo_url_truthy demo_url_valid 5 6 7,
                             of "''mp4''" "''best''"]
    by (simp add: fake_env_calls s)
qed

text \<open>
  Claim C10. When the probed metadata has no duration key, the duration read is 0; with
  no duration key, or with a duration equal to the ceiling, the probe returns the
  metadata without an error, and the request goes on: the downloader makes the
  resolve-mode call after the probe, and neither route answers with status 400.
\<close>

theorem duration_within_limit_proceeds:
  assumes "arg req ''apikey'' = Some API_KEY"
      and "arg req ''url'' = Some raw" and "raw \<noteq> []"
      and "extract_video_id (unquote e raw) \<noteq> None"
      and "extract_info e probe_opts (unquote e raw) = Inr info"
      and "i_duration info = Absent \<or> i_duration info = Val MAX_DURATION"
  shows "(i_duration info = Absent \<longrightarrow> get_or (i_duration info) 0 = Some 0)
       \<and> get_video_info e (unquote e raw) = ((Some info, None), [(probe_opts, unquote e raw)])
       \<and> snd (youtube_downloader e req) =
           [(probe_opts, unquote e raw),
            (build_ydl_opts (lower (case arg req ''format'' of None \<Rightarrow> ''mp4'' | Some v \<Rightarrow> v))
                            (lower (case arg req ''quality'' of None \<Rightarrow> ''best'' | Some v \<Rightarrow> v)),
             unquote e raw)]
       \<and> snd (fst (youtube_downloader e req)) \<noteq> 400
       \<and> snd (fst (video_info e req)) \<noteq> 400"
proof -
  obtain raw_hd raw_tl where raw_eq: "raw = raw_hd # raw_tl"
    using assms(3) by (cases raw) auto
  obtain video_id where vid: "extract_video_id (unquote e raw) = Some video_id"
    using assms(4) by auto
  obtain d where d: "get_or (i_duration info) 0 = Some d" "d \<le> MAX_DURATION"
    using assms(6) by (auto simp: get_or_def MAX_DURATION_def)
  have probe: "get_video_info e (unquote e raw) = ((Some info, None), [(probe_opts, unquote e raw)])"
    using assms(5) d by (rule get_video_info_pass)
  have dl: "youtube_downloader e req = youtube_downloader_body e req"
    using assms(1) by (simp add: youtube_downloader_def require_api_key_accepts)
  have vi: "video_info e req = video_info_body e req"
    using assms(1) by (simp add: video_info_def require_api_key_accepts)
  have "snd (youtube_downloader_body e req) =
           [(probe_opts, unquote e raw),
            (build_ydl_opts (lower (case arg req ''format'' of None \<Rightarrow> ''mp4'' | Some v \<Rightarrow> v))
                            (lower (case arg req ''quality'' of None \<Rightarrow> ''best'' | Some v \<Rightarrow> v)),
             unquote e raw)]"
    using assms(2) vid probe unfolding raw_eq
    by (simp add: youtube_downloader_body_def Let_def split: sum.splits)
  moreover have "snd (fst (youtube_downloader_body e req)) \<noteq> 400"
    using assms(2) vid probe unfolding raw_eq
    by (simp add: youtube_downloader_body_def Let_def split: sum.splits)
  moreover have "snd (fst (video_info_body e req)) \<noteq> 400"
    using assms(2) vid probe unfolding raw_eq
    by (simp add: video_info_body_def Let_def split: sum.splits)
  ultimately show ?thesis
    using probe dl vi by (simp add: get_or_def)
qed

theorem duration_within_limit_proceeds_witness:
  "get_video_info (fake_env (Inr empty_info) (Inr empty_info)) demo_url
     = ((Some empty_info, None), [(probe_opts, demo_url)])
   \<and> snd (youtube_downloader (fake_env (Inr empty_info) (Inr empty_info)) (demo_request ''mp4'' ''best''))
     = [(probe_opts, demo_url), (build_ydl_opts ''mp4'' ''best'', demo_url)]
   \<and> get_video_info (fake_env (Inr (empty_info\<lparr>i_duration := Val 3600\<rparr>)) (Inr empty_info)) demo_url
     = ((Some (empty_info\<lparr>i_duration := Val 3600\<rparr>), None), [(probe_opts, demo_url)])
   \<and> snd (fst (youtube_downloader (fake_env (Inr (empty_info\<lparr>i_duration := Val 3600\<rparr>)) (Inr empty_info))
                 (demo_request ''mp4'' ''best''))) \<noteq> 400"
proof -
  let ?a = "fake_env (Inr empty_info) (Inr empty_info)"
  let ?b = "fake_env (Inr (empty_info\<lparr>i_duration := Val 3600\<rparr>)) (Inr empty_info)"
  have a5: "extract_info ?a probe_opts (unquote ?a demo_url) = Inr empty_info"
    by (simp add: fake_env_calls)
  have a6: "i_duration empty_info = Absent \<or> i_duration empty_info = Val MAX_DURATION"
    by (simp add: empty_info_def)
  have b5: "extract_info ?b probe_opts (unquote ?b demo_url) = Inr (empty_info\<lparr>i_duration := Val 3600\<rparr>)"
    by (simp add: fake_env_calls)
  have b6: "i_duration (empty_info\<lparr>i_duration := Val 3600\<rparr>) = Absent
          \<or> i_duration (empty_info\<lparr>i_duration := Val 3600\<rparr>) = Val MAX_DURATION"
    by (simp add: MAX_DURATION_def)
  have low: "lower ''mp4'' = ''mp4''" "lower ''best'' = ''best''"
    by code_simp+
  show ?thesis
    using duration_within_limit_proceeds [OF demo_request_args(1,2) demo_url_truthy demo_url_valid a5 a6,
                                          of "''mp4''" "''best''"]
          duration_within_limit_proceeds [OF demo_request_args(1,2) demo_url_truthy demo_url_valid b5 b6,
                                          of "''mp4''" "''best''"]
    by (simp add: fake_env_calls demo_request_args low)
qed

section \<open>The info-only route\<close>

text \<open>
  Claim C9. For every metadata document that the probe returns and that passes the
  duration check, the reply of the info-only route lists the first 10 tags of the
  document, in order: all of them when the document has 10 or fewer, none when it has no
  tags key. The list of a reply never has more than 10 entries. (A document whose tags
  key holds \<open>None\<close> gets an error reply, which has no tag list.) The route makes the probe
  call only.
\<close>

theorem info_tags_truncated:
  assumes "arg req ''apikey'' = Some API_KEY"
      and "arg req ''url'' = Some raw" and "raw \<noteq> []"
      and "extract_video_id (unquote e raw) \<noteq> None"
      and "extract_info e probe_opts (unquote e raw) = Inr info"
      and "get_or (i_duration info) 0 = Some d" and "d \<le> MAX_DURATION"
  shows "reply_tags (fst (video_info e req)) =
           (case i_tags info of
              Absent \<Rightarrow> Some (JArr [])
            | Null \<Rightarrow> None
            | Val ts \<Rightarrow> Some (JArr (map JStr (take 10 ts))))
       \<and> (\<forall>ts. reply_tags (fst (video_info e req)) = Some (JArr ts) \<longrightarrow> length ts \<le> 10)
       \<and> (i_tags info \<noteq> Null \<longrightarrow> snd (fst (video_info e req)) = 200)
       \<and> snd (video_info e req) = [(probe_opts, unquote e raw)]"
proof -
  obtain raw_hd raw_tl where raw_eq: "raw = raw_hd # raw_tl"
    using assms(3) by (cases raw) auto
  obtain video_id where vid: "extract_video_id (unquote e raw) = Some video_id"
    using assms(4) by auto
  have probe: "get_video_info e (unquote e raw) = ((Some info, None), [(probe_opts, unquote e raw)])"
    using assms(5,6,7) by (rule get_video_info_pass)
  have vi: "video_info e req = video_info_body e req"
    using assms(1) by (simp add: video_info_def require_api_key_accepts)
  have body: "video_info_body e req =
                (case info_response info of
                   Inl ex \<Rightarrow> ((jsonify_failed (''Failed to get video info: '' @ str_exn ex), 500),
                              [(probe_opts, unquote e raw)])
                 | Inr body \<Rightarrow> ((body, 200), [(probe_opts, unquote e raw)]))"
    using assms(2) vid probe unfolding raw_eq
    by (simp add: video_info_body_def Let_def)
  have tags: "reply_tags (fst (video_info_body e req)) =
           (case i_tags info of
              Absent \<Rightarrow> Some (JArr [])
            | Null \<Rightarrow> None
            | Val ts \<Rightarrow> Some (JArr (map JStr (take 10 ts))))"
    unfolding body
    by (cases "i_tags info")
       (simp_all add: info_response_def reply_tags_def json_get_def jsonify_failed_def)
  have "\<forall>ts. reply_tags (fst (video_info_body e req)) = Some (JArr ts) \<longrightarrow> length ts \<le> 10"
    unfolding tags by (cases "i_tags info") auto
  moreover have "i_tags info \<noteq> Null \<longrightarrow> snd (fst (video_info_body e req)) = 200"
    unfolding body by (cases "i_tags info") (simp_all add: info_response_def)
  moreover have "snd (video_info_body e req) = [(probe_opts, unquote e raw)]"
    unfolding body by (simp split: sum.splits)
  ultimately show ?thesis
    using tags vi by simp
qed

theorem info_tags_truncated_witness:
  "reply_tags (fst (video_info
      (fake_env (Inr (empty_info\<lparr>i_tags := Val [''t1'', ''t2'', ''t3'', ''t4'', ''t5'', ''t6'', ''t7'',
                                               ''t8'', ''t9'', ''t10'', ''t11'', ''t12'']\<rparr>))
                (Inr empty_info))
      (demo_request ''mp4'' ''best'')))
     = Some (JArr (map JStr [''t1'', ''t2'', ''t3'', ''t4'', ''t5'', ''t6'', ''t7'', ''t8'', ''t9'', ''t10'']))"
proof -
  let ?info = "empty_info\<lparr>i_tags := Val [''t1'', ''t2'', ''t3'', ''t4'', ''t5'', ''t6'', ''t7'',
                                         ''t8'', ''t9'', ''t10'', ''t11'', ''t12'']\<rparr>"
  let ?e = "fake_env (Inr ?info) (Inr empty_info)"
  have 5: "extract_info ?e probe_opts (unquote ?e demo_url) = Inr ?info"
    by (simp add: fake_env_calls)
  have 6: "get_or (i_duration ?info) 0 = Some 0"
    by (simp add: empty_info_def get_or_def)
  have 7: "(0::int) \<le> MAX_DURATION"
    by (simp add: MAX_DURATION_def)
  show ?thesis
    using info_tags_truncated [OF demo_request_args(1,2) demo_url_truthy demo_url_valid 5 6 7,
                               of "''mp4''" "''best''"]
    by simp
qed

section \<open>The format selector\<close>

text \<open>
  Claim C1, as amended. The source sorts the descriptors of the requested kind, cuts the
  list to its first 5 entries and only then skips the entries without a usable URL.
  For a catalog whose ranking sorts (no ranking key of two or more kept descriptors
  holds \<open>None\<close>): let \<open>ranked\<close> be the descriptors of the requested kind in descending
  order of the ranking key, equal keys in catalog order. The returned links are those
  of the URL-bearing descriptors among the first 5 of \<open>ranked\<close>, so there are at most 5
  and there may be fewer although 5 URL-bearing descriptors exist. When the first 5 of
  \<open>ranked\<close> all bear a URL, the links are the top 5 URL-bearing descriptors, which is
  what the specification's order of steps gives.
\<close>

theorem links_are_url_bearing_of_top5:
  assumes "i_formats info = Val formats"
      and "length (filter (requested_kind format_type) formats) < 2
         \<or> None \<notin> set (map (if format_type \<noteq> ''mp3'' then height_key else abr_key)
                           (filter (requested_kind format_type) formats))"
  shows "let ranked = stable_desc (rank_key format_type) (filter (requested_kind format_type) formats)
         in mset ranked = mset (filter (requested_kind format_type) formats)
          \<and> sorted_wrt (\<lambda>x y. rank_key format_type x \<ge> rank_key format_type y) ranked
          \<and> (\<forall>k. filter (\<lambda>x. rank_key format_type x = k) ranked
                    = filter (\<lambda>x. rank_key format_type x = k) (filter (requested_kind format_type) formats))
          \<and> download_links format_type quality info
              = Inr (map (link_info format_type) (filter has_url (take 5 ranked)))
          \<and> ((\<forall>x \<in> set (take 5 ranked). has_url x) \<longrightarrow>
                download_links format_type quality info
                  = Inr (map (link_info format_type) (spec_ranked format_type formats)))"
proof -
  let ?kept = "filter (requested_kind format_type) formats"
  let ?ranked = "stable_desc (rank_key format_type) ?kept"
  have sorted: "sort_formats format_type (filter_formats format_type formats) = Inr ?ranked"
    using assms(2) by (simp add: filter_formats_def filter_loop_append sort_formats_ok)
  have links: "download_links format_type quality info
                 = Inr (map (link_info format_type) (filter has_url (take 5 ?ranked)))"
    using assms(1) sorted by (simp add: download_links_def links_loop_append)
  have spec: "spec_ranked format_type formats = take 5 (filter has_url ?ranked)"
    by (simp add: spec_ranked_def filter_stable_desc)
  have agree: "filter has_url (take 5 ?ranked) = spec_ranked format_type formats"
    if "\<forall>x \<in> set (take 5 ?ranked). has_url x"
  proof -
    have "filter has_url (take 5 ?ranked) = take 5 ?ranked"
      using that by simp
    also have "\<dots> = take 5 (filter has_url ?ranked)"
      using that by (rule take_filter_all [symmetric])
    finally show ?thesis
      by (simp add: spec)
  qed
  show ?thesis
    unfolding Let_def
  proof (intro conjI allI impI)
    show "mset ?ranked = mset ?kept"
      by (rule mset_stable_desc)
    show "sorted_wrt (\<lambda>x y. rank_key format_type x \<ge> rank_key format_type y) ?ranked"
      by (rule sorted_stable_desc)
    show "filter (\<lambda>x. rank_key format_type x = k) ?ranked = filter (\<lambda>x. rank_key format_type x = k) ?kept" for k
      by (rule stable_desc_stable)
    show "download_links format_type quality info
            = Inr (map (link_info format_type) (filter has_url (take 5 ?ranked)))"
      by (rule links)
    show "download_links format_type quality info
            = Inr (map (link_info format_type) (spec_ranked format_type formats))"
      if "\<forall>x \<in> set (take 5 ?ranked). has_url x"
      using links agree [OF that] by simp
  qed
qed

theorem links_are_url_bearing_of_top5_witness:
  "download_links ''mp4'' ''best'' (empty_info\<lparr>i_formats := Val (catalog8 ''h'')\<rparr>)
     = Inr (map (link_info ''mp4'') (spec_ranked ''mp4'' (catalog8 ''h'')))
   \<and> map f_format_id (spec_ranked ''mp4'' (catalog8 ''h''))
     = [Val ''g'', Val ''e'', Val ''f'', Val ''d'', Val ''c'']"
proof -
  let ?info = "empty_info\<lparr>i_formats := Val (catalog8 ''h'')\<rparr>"
  have 1: "i_formats ?info = Val (catalog8 ''h'')"
    by simp
  have 2: "length (filter (requested_kind ''mp4'') (catalog8 ''h'')) < 2
         \<or> None \<notin> set (map (if ''mp4'' \<noteq> ''mp3'' then height_key else abr_key)
                           (filter (requested_kind ''mp4'') (catalog8 ''h'')))"
    by code_simp
  have 3: "\<forall>x \<in> set (take 5 (stable_desc (rank_key ''mp4'')
                                (filter (requested_kind ''mp4'') (catalog8 ''h'')))). has_url x"
    by code_simp
  have "download_links ''mp4'' ''best'' ?info
          = Inr (map (link_info ''mp4'') (spec_ranked ''mp4'' (catalog8 ''h'')))"
    using links_are_url_bearing_of_top5 [OF 1 2, of "''best''", unfolded Let_def] 3 by blast
  moreover have "map f_format_id (spec_ranked ''mp4'' (catalog8 ''h''))
          = [Val ''g'', Val ''e'', Val ''f'', Val ''d'', Val ''c'']"
    by code_simp
  ultimately show ?thesis
    by simp
qed

text \<open>
  The claim as stated fails when the URL-less descriptor ranks among the first 5. In the
  catalog with the heights 144, 240, 360, 480, 720, 720, 1080 and 0 whose 1080 entry has
  no URL, the source returns four links (720, 720, 480, 360), while the top 5 URL-bearing
  descriptors are 720, 720, 480, 360 and 240.
\<close>

theorem url_less_top_entry_counterexample:
  "download_links ''mp4'' ''best'' (empty_info\<lparr>i_formats := Val (catalog8 ''g'')\<rparr>)
     = Inr (map (link_info ''mp4'')
              [video ''e'' (Val 720) (Val ''https://cdn.example/e''),
               video ''f'' (Val 720) (Val ''https://cdn.example/f''),
               video ''d'' (Val 480) (Val ''https://cdn.example/d''),
               video ''c'' (Val 360) (Val ''https://cdn.example/c'')])
   \<and> spec_ranked ''mp4'' (catalog8 ''g'')
     = [video ''e'' (Val 720) (Val ''https://cdn.example/e''),
        video ''f'' (Val 720) (Val ''https://cdn.example/f''),
        video ''d'' (Val 480) (Val ''https://cdn.example/d''),
        video ''c'' (Val 360) (Val ''https://cdn.example/c''),
        video ''b'' (Val 240) (Val ''https://cdn.example/b'')]
   \<and> download_links ''mp4'' ''best'' (empty_info\<lparr>i_formats := Val (catalog8 ''g'')\<rparr>)
     \<noteq> Inr (map (link_info ''mp4'') (spec_ranked ''mp4'' (catalog8 ''g'')))"
  by code_simp

text \<open>The number of links for each choice of the URL-less descriptor of that catalog: 5
  when it is outside the first 5 of the ranking (144, 240 or 0), 4 otherwise.\<close>

lemma catalog8_link_counts:
  "map (\<lambda>name. case download_links ''mp4'' ''best'' (empty_info\<lparr>i_formats := Val (catalog8 name)\<rparr>) of
                  Inl _ \<Rightarrow> 0 | Inr links \<Rightarrow> length links)
       [''a'', ''b'', ''c'', ''d'', ''e'', ''f'', ''g'', ''h'']
     = [5, 5, 4, 4, 4, 4, 4, 5::nat]"
  by code_simp

text \<open>
  Claim C3. The claim says that the selector sorts every filtered list in descending
  order of the height (or of the average bitrate), counting a missing value as zero.
  The source counts an absent key as zero, but a key that holds \<open>None\<close> reaches the
  comparison: with two video descriptors, one of height \<open>None\<close>, the sort raises
  \<open>TypeError\<close>, the handler's outer \<open>except\<close> answers with status 500, and the reply has
  no links. The theorem evaluates the source at that input.
\<close>

theorem null_height_breaks_sort:
  "filter_formats ''mp4''
       [video ''a'' Null (Val ''https://cdn.example/a''), video ''b'' (Val 720) (Val ''https://cdn.example/b'')]
     = [video ''a'' Null (Val ''https://cdn.example/a''), video ''b'' (Val 720) (Val ''https://cdn.example/b'')]
   \<and> sort_formats ''mp4''
       [video ''a'' Null (Val ''https://cdn.example/a''), video ''b'' (Val 720) (Val ''https://cdn.example/b'')]
     = Inl (not_supported ''<'' ''NoneType'' ''int'')
   \<and> snd (fst (youtube_downloader
       (fake_env (Inr empty_info)
          (Inr (empty_info\<lparr>i_formats :=
             Val [video ''a'' Null (Val ''https://cdn.example/a''),
                  video ''b'' (Val 720) (Val ''https://cdn.example/b'')]\<rparr>)))
       (demo_request ''mp4'' ''best''))) = 500
   \<and> json_get (fst (fst (youtube_downloader
       (fake_env (Inr empty_info)
          (Inr (empty_info\<lparr>i_formats :=
             Val [video ''a'' Null (Val ''https://cdn.example/a''),
                  video ''b'' (Val 720) (Val ''https://cdn.example/b'')]\<rparr>)))
       (demo_request ''mp4'' ''best'')))) ''download_links'' = None"
  by code_simp

text \<open>Without a \<open>None\<close> key the sort is the stable descending one (\<open>sort_formats_ok\<close>,
  \<open>sorted_stable_desc\<close>, \<open>stable_desc_stable\<close>); the specification's audio example ranks as
  it says, and an absent height counts as zero.\<close>

lemma audio_bitrates_ranked:
  "sort_formats ''mp3'' [audio ''low'' (Val 64), audio ''mid'' (Val 128), audio ''high'' (Val 192)]
     = Inr [audio ''high'' (Val 192), audio ''mid'' (Val 128), audio ''low'' (Val 64)]"
  by code_simp

lemma absent_height_ranks_as_zero:
  "sort_formats ''mp4'' [video ''x'' Absent Absent, video ''y'' (Val 0) Absent, video ''z'' (Val 144) Absent]
     = Inr [video ''z'' (Val 144) Absent, video ''x'' Absent Absent, video ''y'' (Val 0) Absent]"
  by code_simp

section \<open>Extraction failures\<close>

text \<open>
  Claim C2, as amended. For a request that passes the key check and the URL validator: an
  error raised by the probe call, with a non-empty text, is answered by both routes with
  status 400 and that text as the message, after the probe call alone. An error raised
  by the resolve-mode call of the downloader is not caught near the call: it reaches the
  handler's outer \<open>except\<close> and is answered with status 500 and the message
  \<open>Failed to process video: \<close> followed by the text.
\<close>

theorem extraction_failure_status:
  assumes "arg req ''apikey'' = Some API_KEY"
      and "arg req ''url'' = Some raw" and "raw \<noteq> []"
      and "extract_video_id (unquote e raw) \<noteq> None"
  shows "(\<forall>ex. extract_info e probe_opts (unquote e raw) = Inl ex \<and> str_exn ex \<noteq> [] \<longrightarrow>
            youtube_downloader e req
              = ((jsonify_failed (str_exn ex), 400), [(probe_opts, unquote e raw)])
          \<and> video_info e req
              = ((jsonify_failed (str_exn ex), 400), [(probe_opts, unquote e raw)]))
       \<and> (\<forall>info d ex.
            extract_info e probe_opts (unquote e raw) = Inr info
          \<and> get_or (i_duration info) 0 = Some d \<and> d \<le> MAX_DURATION
          \<and> extract_info e
               (build_ydl_opts (lower (case arg req ''format'' of None \<Rightarrow> ''mp4'' | Some v \<Rightarrow> v))
                               (lower (case arg req ''quality'' of None \<Rightarrow> ''best'' | Some v \<Rightarrow> v)))
               (unquote e raw) = Inl ex \<longrightarrow>
            youtube_downloader e req
              = ((jsonify_failed (''Failed to process video: '' @ str_exn ex), 500),
                 [(probe_opts, unquote e raw),
                  (build_ydl_opts (lower (case arg req ''format'' of None \<Rightarrow> ''mp4'' | Some v \<Rightarrow> v))
                                  (lower (case arg req ''quality'' of None \<Rightarrow> ''best'' | Some v \<Rightarrow> v)),
                   unquote e raw)]))"
proof -
  obtain raw_hd raw_tl where raw_eq: "raw = raw_hd # raw_tl"
    using assms(3) by (cases raw) auto
  obtain video_id where vid: "extract_video_id (unquote e raw) = Some video_id"
    using assms(4) by auto
  have dl: "youtube_downloader e req = youtube_downloader_body e req"
    using assms(1) by (simp add: youtube_downloader_def require_api_key_accepts)
  have vi: "video_info e req = video_info_body e req"
    using assms(1) by (simp add: video_info_def require_api_key_accepts)
  have probe_case:
    "youtube_downloader e req = ((jsonify_failed (str_exn ex), 400), [(probe_opts, unquote e raw)])
     \<and> video_info e req = ((jsonify_failed (str_exn ex), 400), [(probe_opts, unquote e raw)])"
    if raised: "extract_info e probe_opts (unquote e raw) = Inl ex" and truthy: "str_exn ex \<noteq> []" for ex
  proof -
    obtain m ms where msg: "str_exn ex = m # ms"
      using truthy by (cases "str_exn ex") auto
    have probe: "get_video_info e (unquote e raw) = ((None, Some (m # ms)), [(probe_opts, unquote e raw)])"
      using get_video_info_raise [OF raised] by (simp add: msg)
    have "youtube_downloader_body e req = ((jsonify_failed (m # ms), 400), [(probe_opts, unquote e raw)])"
      using assms(2) vid probe unfolding raw_eq
      by (simp add: youtube_downloader_body_def Let_def)
    moreover have "video_info_body e req = ((jsonify_failed (m # ms), 400), [(probe_opts, unquote e raw)])"
      using assms(2) vid probe unfolding raw_eq
      by (simp add: video_info_body_def Let_def)
    ultimately show ?thesis
      by (simp add: dl vi msg)
  qed
  have resolve_case:
    "youtube_downloader e req
       = ((jsonify_failed (''Failed to process video: '' @ str_exn ex), 500),
          [(probe_opts, unquote e raw),
           (build_ydl_opts (lower (case arg req ''format'' of None \<Rightarrow> ''mp4'' | Some v \<Rightarrow> v))
                           (lower (case arg req ''quality'' of None \<Rightarrow> ''best'' | Some v \<Rightarrow> v)),
            unquote e raw)])"
    if "extract_info e probe_opts (unquote e raw) = Inr info"
      and "get_or (i_duration info) 0 = Some d" and "d \<le> MAX_DURATION"
      and "extract_info e
             (build_ydl_opts (lower (case arg req ''format'' of None \<Rightarrow> ''mp4'' | Some v \<Rightarrow> v))
                             (lower (case arg req ''quality'' of None \<Rightarrow> ''best'' | Some v \<Rightarrow> v)))
             (unquote e raw) = Inl ex"
    for info d ex
  proof -
    have probe: "get_video_info e (unquote e raw) = ((Some info, None), [(probe_opts, unquote e raw)])"
      using that(1,2,3) by (rule get_video_info_pass)
    have "resolve e (unquote e raw)
            (lower (case arg req ''format'' of None \<Rightarrow> ''mp4'' | Some v \<Rightarrow> v))
            (lower (case arg req ''quality'' of None \<Rightarrow> ''best'' | Some v \<Rightarrow> v)) = Inl ex"
      using that(4) by (simp add: resolve_def)
    then show ?thesis
      using assms(2) vid probe unfolding raw_eq dl
      by (simp add: youtube_downloader_body_def Let_def)
  qed
  show ?thesis
    using probe_case resolve_case by blast
qed

theorem extraction_failure_status_witness:
  "youtube_downloader (fake_env (Inl (ExtractorError ''Video unavailable'')) (Inr empty_info))
       (demo_request ''mp3'' ''best'')
     = ((jsonify_failed ''Video unavailable'', 400), [(probe_opts, demo_url)])
   \<and> youtube_downloader (fake_env (Inr empty_info) (Inl (ExtractorError ''Sign in to confirm your age'')))
       (demo_request ''mp3'' ''best'')
     = ((jsonify_failed ''Failed to process video: Sign in to confirm your age'', 500),
        [(probe_opts, demo_url), (build_ydl_opts ''mp3'' ''best'', demo_url)])"
proof -
  let ?a = "fake_env (Inl (ExtractorError ''Video unavailable'')) (Inr empty_info)"
  let ?b = "fake_env (Inr empty_info) (Inl (ExtractorError ''Sign in to confirm your age''))"
  have low: "lower ''mp3'' = ''mp3''" "lower ''best'' = ''best''"
    by code_simp+
  have a: "extract_info ?a probe_opts (unquote ?a demo_url) = Inl (ExtractorError ''Video unavailable'')
         \<and> str_exn (ExtractorError ''Video unavailable'') \<noteq> []"
    by (simp add: fake_env_calls)
  have b: "extract_info ?b probe_opts (unquote ?b demo_url) = Inr empty_info
         \<and> get_or (i_duration empty_info) 0 = Some 0 \<and> (0::int) \<le> MAX_DURATION
         \<and> extract_info ?b
              (build_ydl_opts (lower (case arg (demo_request ''mp3'' ''best'') ''format'' of None \<Rightarrow> ''mp4'' | Some v \<Rightarrow> v))
                              (lower (case arg (demo_request ''mp3'' ''best'') ''quality'' of None \<Rightarrow> ''best'' | Some v \<Rightarrow> v)))
              (unquote ?b demo_url) = Inl (ExtractorError ''Sign in to confirm your age'')"
    by (simp add: fake_env_calls build_ydl_opts_not_probe empty_info_def get_or_def MAX_DURATION_def)
  have "youtube_downloader ?a (demo_request ''mp3'' ''best'')
          = ((jsonify_failed (str_exn (ExtractorError ''Video unavailable'')), 400),
             [(probe_opts, unquote ?a demo_url)])"
    using extraction_failure_status [OF demo_request_args(1,2) demo_url_truthy demo_url_valid,
                                     of "Inl (ExtractorError ''Video unavailable'')" "Inr empty_info" "''mp3''" "''best''"]
          a by blast
  moreover have "youtube_downloader ?b (demo_request ''mp3'' ''best'')
          = ((jsonify_failed (''Failed to process video: '' @ str_exn (ExtractorError ''Sign in to confirm your age'')), 500),
             [(probe_opts, unquote ?b demo_url),
              (build_ydl_opts (lower (case arg (demo_request ''mp3'' ''best'') ''format'' of None \<Rightarrow> ''mp4'' | Some v \<Rightarrow> v))
                              (lower (case arg (demo_request ''mp3'' ''best'') ''quality'' of None \<Rightarrow> ''best'' | Some v \<Rightarrow> v)),
               unquote ?b demo_url)])"
    using extraction_failure_status [OF demo_request_args(1,2) demo_url_truthy demo_url_valid,
                                     of "Inr empty_info" "Inl (ExtractorError ''Sign in to confirm your age'')" "''mp3''" "''best''"]
          b by blast
  ultimately show ?thesis
    by (simp add: fake_env_calls demo_request_args low)
qed

text \<open>The claim as stated fails for the resolve-mode call: the extractor's error there
  gives status 500, and the message carries a prefix.\<close>

theorem resolve_failure_counterexample:
  "extract_info (fake_env (Inr empty_info) (Inl (ExtractorError ''Unsupported URL'')))
       (build_ydl_opts ''mp4'' ''best'') demo_url
     = Inl (ExtractorError ''Unsupported URL'')
   \<and> fst (youtube_downloader (fake_env (Inr empty_info) (Inl (ExtractorError ''Unsupported URL'')))
            (demo_request ''mp4'' ''best''))
     = (jsonify_failed ''Failed to process video: Unsupported URL'', 500)
   \<and> snd (fst (youtube_downloader (fake_env (Inr empty_info) (Inl (ExtractorError ''Unsupported URL'')))
                 (demo_request ''mp4'' ''best''))) \<noteq> 400"
  by code_simp

section \<open>The formats \<open>mp4\<close> and \<open>webm\<close>\<close>

text \<open>
  Claim C8, as amended. Take two requests that differ in the format parameter only,
  \<open>mp4\<close> in one and \<open>webm\<close> in the other. They get the same format-selector hint and the
  same kind filter, make the same extraction calls and get the same status. When every
  metadata document that the resolve-mode call returns has a format catalog, the body of
  the \<open>webm\<close> reply is the body of the \<open>mp4\<close> reply with the \<open>requested_format\<close> member
  replaced, so the download links are the same. (Without a catalog the single synthetic
  link carries the requested format as its extension, and the links differ.)
\<close>

theorem mp4_webm_differ_in_label_only:
  assumes "arg r1 ''format'' = Some ''mp4''" and "arg r2 ''format'' = Some ''webm''"
      and "\<forall>k. k \<noteq> ''format'' \<longrightarrow> arg r1 k = arg r2 k"
  shows "build_ydl_opts ''webm'' quality = build_ydl_opts ''mp4'' quality
       \<and> filter_formats ''webm'' formats = filter_formats ''mp4'' formats
       \<and> snd (youtube_downloader e r2) = snd (youtube_downloader e r1)
       \<and> snd (fst (youtube_downloader e r2)) = snd (fst (youtube_downloader e r1))
       \<and> ((\<forall>raw info. arg r1 ''url'' = Some raw \<longrightarrow>
              extract_info e (build_ydl_opts ''mp4''
                  (lower (case arg r1 ''quality'' of None \<Rightarrow> ''best'' | Some v \<Rightarrow> v))) (unquote e raw) = Inr info \<longrightarrow>
              i_formats info \<noteq> Absent) \<longrightarrow>
            fst (fst (youtube_downloader e r2)) =
              json_replace ''requested_format'' (JStr ''webm'') (fst (fst (youtube_downloader e r1))))"
proof -
  let ?catalog = "\<forall>raw info. arg r1 ''url'' = Some raw \<longrightarrow>
              extract_info e (build_ydl_opts ''mp4''
                  (lower (case arg r1 ''quality'' of None \<Rightarrow> ''best'' | Some v \<Rightarrow> v))) (unquote e raw) = Inr info \<longrightarrow>
              i_formats info \<noteq> Absent"
  have opts: "\<And>q. build_ydl_opts ''webm'' q = build_ydl_opts ''mp4'' q"
    by (simp add: build_ydl_opts_def)
  have filt: "filter_formats ''webm'' formats = filter_formats ''mp4'' formats"
    by (simp add: filter_formats_def filter_loop_append requested_kind_video [of "''webm''"])
  have same: "arg r2 ''apikey'' = arg r1 ''apikey''" "arg r2 ''url'' = arg r1 ''url''"
             "arg r2 ''quality'' = arg r1 ''quality''"
    using assms(3) by simp_all
  define q where "q = lower (case arg r1 ''quality'' of None \<Rightarrow> ''best'' | Some v \<Rightarrow> v)"
  let ?P = "\<lambda>a b. snd b = snd a \<and> snd (fst b) = snd (fst a)
              \<and> (?catalog \<longrightarrow> fst (fst b) = json_replace ''requested_format'' (JStr ''webm'') (fst (fst a)))"
  have body: "?P (youtube_downloader_body e r1) (youtube_downloader_body e r2)"
  proof (cases "arg r1 ''url''")
    case None
    then show ?thesis
      using same by (simp add: youtube_downloader_body_cases json_replace_failed)
  next
    case (Some raw)
    show ?thesis
    proof (cases raw)
      case Nil
      then show ?thesis
        using Some same by (simp add: youtube_downloader_body_cases json_replace_failed)
    next
      case (Cons c cs)
      note url = Some [unfolded Cons]
      show ?thesis
      proof (cases "extract_video_id (unquote e (c # cs))")
        case None
        then show ?thesis
          using url same by (simp add: youtube_downloader_body_cases json_replace_failed)
      next
        case vid: (Some video_id)
        show ?thesis
        proof (cases "\<exists>m ms. snd (fst (get_video_info e (unquote e (c # cs)))) = Some (m # ms)")
          case True
          then show ?thesis
            using url same vid
            by (auto simp: youtube_downloader_body_cases json_replace_failed)
        next
          case False
          then have nf: "(case snd (fst (get_video_info e (unquote e (c # cs)))) of
                            Some (m # ms) \<Rightarrow> A m ms | _ \<Rightarrow> B) = B" for A and B :: "response \<times> call list"
            by (auto split: option.split list.split)
          have cat: "\<forall>info. extract_info e (build_ydl_opts ''mp4'' q) (unquote e (c # cs)) = Inr info
                        \<longrightarrow> i_formats info \<noteq> Absent" if ?catalog
            using that url unfolding q_def by blast
          from resolve_video_cases [of "''webm''" e "unquote e (c # cs)" q]
          consider (raised) ex where
              "resolve e (unquote e (c # cs)) ''webm'' q = Inl ex"
              "resolve e (unquote e (c # cs)) ''mp4'' q = Inl ex"
            | (replied) b1 b2 where
              "resolve e (unquote e (c # cs)) ''webm'' q = Inr b2"
              "resolve e (unquote e (c # cs)) ''mp4'' q = Inr b1"
              "?catalog \<longrightarrow> b2 = json_replace ''requested_format'' (JStr ''webm'') b1"
            using cat by fastforce
          then show ?thesis
          proof cases
            case raised
            then show ?thesis
              using url same vid assms(1,2)
              by (simp add: youtube_downloader_body_cases nf lower_labels opts json_replace_failed q_def)
          next
            case replied
            then show ?thesis
              using url same vid assms(1,2)
              by (simp add: youtube_downloader_body_cases nf lower_labels opts q_def)
          qed
        qed
      qed
    qed
  qed
  show ?thesis
  proof (cases "arg r1 ''apikey'' = Some API_KEY")
    case True
    then show ?thesis
      using body same opts filt by (simp add: youtube_downloader_def require_api_key_accepts)
  next
    case False
    then show ?thesis
      using same opts filt
      by (simp add: youtube_downloader_def require_api_key_def json_replace_failed)
  qed
qed

theorem mp4_webm_differ_in_label_only_witness:
  "snd (youtube_downloader
          (fake_env (Inr empty_info) (Inr (empty_info\<lparr>i_formats := Val (catalog8 ''h'')\<rparr>)))
          (demo_request ''webm'' ''720p''))
     = snd (youtube_downloader
          (fake_env (Inr empty_info) (Inr (empty_info\<lparr>i_formats := Val (catalog8 ''h'')\<rparr>)))
          (demo_request ''mp4'' ''720p''))
   \<and> fst (fst (youtube_downloader
          (fake_env (Inr empty_info) (Inr (empty_info\<lparr>i_formats := Val (catalog8 ''h'')\<rparr>)))
          (demo_request ''webm'' ''720p'')))
     = json_replace ''requested_format'' (JStr ''webm'')
         (fst (fst (youtube_downloader
            (fake_env (Inr empty_info) (Inr (empty_info\<lparr>i_formats := Val (catalog8 ''h'')\<rparr>)))
            (demo_request ''mp4'' ''720p''))))"
proof -
  let ?e = "fake_env (Inr empty_info) (Inr (empty_info\<lparr>i_formats := Val (catalog8 ''h'')\<rparr>))"
  have 3: "\<forall>k. k \<noteq> ''format'' \<longrightarrow> arg (demo_request ''mp4'' ''720p'') k = arg (demo_request ''webm'' ''720p'') k"
    by (simp add: arg_def demo_request_def)
  have 4: "\<forall>raw info. arg (demo_request ''mp4'' ''720p'') ''url'' = Some raw \<longrightarrow>
             extract_info ?e (build_ydl_opts ''mp4''
                 (lower (case arg (demo_request ''mp4'' ''720p'') ''quality'' of None \<Rightarrow> ''best'' | Some v \<Rightarrow> v)))
               (unquote ?e raw) = Inr info \<longrightarrow>
             i_formats info \<noteq> Absent"
    by (auto simp: fake_env_calls build_ydl_opts_not_probe)
  show ?thesis
    using mp4_webm_differ_in_label_only [OF demo_request_args(3) demo_request_args(3) 3, where e = ?e] 4
    by blast
qed

text \<open>The claim as stated fails in the single-URL fallback: the synthetic link's \<open>ext\<close> is
  the requested format, so the two replies differ in \<open>download_links\<close> too.\<close>

theorem single_link_ext_counterexample:
  "json_get (fst (fst (youtube_downloader
       (fake_env (Inr empty_info) (Inr (empty_info\<lparr>i_url := Val ''https://cdn.example/one''\<rparr>)))
       (demo_request ''mp4'' ''best'')))) ''download_links''
     = Some (JArr [JObj [(''format_id'', JStr ''single''), (''url'', JStr ''https://cdn.example/one''),
                        (''ext'', JStr ''mp4''), (''quality'', JStr ''best'')]])
   \<and> json_get (fst (fst (youtube_downloader
       (fake_env (Inr empty_info) (Inr (empty_info\<lparr>i_url := Val ''https://cdn.example/one''\<rparr>)))
       (demo_request ''webm'' ''best'')))) ''download_links''
     = Some (JArr [JObj [(''format_id'', JStr ''single''), (''url'', JStr ''https://cdn.example/one''),
                        (''ext'', JStr ''webm''), (''quality'', JStr ''best'')]])
   \<and> json_get (fst (fst (youtube_downloader
       (fake_env (Inr empty_info) (Inr (empty_info\<lparr>i_url := Val ''https://cdn.example/one''\<rparr>)))
       (demo_request ''mp4'' ''best'')))) ''download_links''
     \<noteq> json_get (fst (fst (youtube_downloader
       (fake_env (Inr empty_info) (Inr (empty_info\<lparr>i_url := Val ''https://cdn.example/one''\<rparr>)))
       (demo_request ''webm'' ''best'')))) ''download_links''"
  by code_simp

end
